theory Spec2Isabelle
  imports Complex_Main
begin

section \<open>JavaScript values\<close>

text \<open>
  Numbers are IEEE doubles in the source. The code below never computes with them: it
  only tests them for truthiness and strict equality, so a number is modelled as \<open>NaN\<close>
  or a real (an infinity behaves like any nonzero real in every test made here).
\<close>

datatype number = NaN | Fin real

text \<open>
  The values that reach the codec and the dispatcher:
  \<^item> the primitives, with \<open>Fn\<close> a function (given by a name that stands for its identity);
  \<^item> \<open>Arr\<close>, an array with its elements;
  \<^item> \<open>Obj\<close>, a plain object with its own enumerable string-keyed properties in the
    order \<^verbatim>\<open>Object.keys\<close> lists them;
  \<^item> \<open>Vec3\<close>, an instance of \<^verbatim>\<open>Vector3\<close> with its \<^verbatim>\<open>x\<close>, \<^verbatim>\<open>y\<close> and \<^verbatim>\<open>z\<close>;
  \<^item> \<open>Inst\<close>, an instance of any other class (named), with its own enumerable
    properties like \<open>Obj\<close>.
  The wire form is made of the same values.

  A property of an \<open>Obj\<close> or an \<open>Inst\<close> is a data property, and a value is a finite
  tree. An object with accessor properties or one that is reachable from itself (a
  \<^verbatim>\<open>VMElement\<close>, whose enumerable getters \<^verbatim>\<open>parentNode\<close> and \<^verbatim>\<open>firstChild\<close> lead from a
  child to its parent and back) is not a value of this type: what the codec does with
  such an object is not modelled, and nothing below is stated about it.
\<close>

datatype jsval =
    Undefined
  | Null
  | Bool bool
  | Num number
  | Str string
  | Fn string
  | Arr "jsval list"
  | Obj "(string \<times> jsval) list"
  | Vec3 jsval jsval jsval
  | Inst string "(string \<times> jsval) list"

text \<open>
  The exceptions the modelled code raises: the two \<^verbatim>\<open>Error\<close>s of the codec with the value
  their message names, the engine's \<^verbatim>\<open>TypeError\<close>, and the \<^verbatim>\<open>Error\<close> of \<^verbatim>\<open>appendChild\<close>
  with the wrapper of the child its message names.
\<close>

datatype error =
    NoWayToSerialize jsval
  | UnableToRead jsval
  | TypeError string
  | AlreadyHasParent nat

text \<open>\<^verbatim>\<open>!v\<close>, \<^verbatim>\<open>typeof v\<close>, \<^verbatim>\<open>Array.isArray(v)\<close> and \<^verbatim>\<open>v instanceof Vector3\<close>.\<close>

fun falsy :: "jsval \<Rightarrow> bool" where
  "falsy Undefined = True"
| "falsy Null = True"
| "falsy (Bool b) = (\<not> b)"
| "falsy (Num n) = (n = NaN \<or> n = Fin 0)"
| "falsy (Str s) = (s = [])"
| "falsy _ = False"

fun typeof :: "jsval \<Rightarrow> string" where
  "typeof Undefined = ''undefined''"
| "typeof (Bool b) = ''boolean''"
| "typeof (Num n) = ''number''"
| "typeof (Str s) = ''string''"
| "typeof (Fn f) = ''function''"
| "typeof _ = ''object''"

fun isArray :: "jsval \<Rightarrow> bool" where
  "isArray (Arr xs) = True"
| "isArray _ = False"

fun instanceof_Vector3 :: "jsval \<Rightarrow> bool" where
  "instanceof_Vector3 (Vec3 x y z) = True"
| "instanceof_Vector3 _ = False"

text \<open>The elements of an array, and \<^verbatim>\<open>xs[i]\<close>, which is \<^verbatim>\<open>undefined\<close> out of range.\<close>

fun elements :: "jsval \<Rightarrow> jsval list" where
  "elements (Arr xs) = xs"
| "elements _ = []"

definition idx :: "jsval list \<Rightarrow> nat \<Rightarrow> jsval" where
  "idx xs i = (if i < length xs then xs ! i else Undefined)"

text \<open>\<^verbatim>\<open>Object.keys(obj)\<close> and the property read \<^verbatim>\<open>obj[key]\<close>, for the objects the codec reads.\<close>

fun Object_keys :: "jsval \<Rightarrow> string list" where
  "Object_keys (Obj props) = map fst props"
| "Object_keys (Inst c props) = map fst props"
| "Object_keys _ = []"

fun obj_get :: "jsval \<Rightarrow> string \<Rightarrow> jsval" where
  "obj_get (Obj props) key = (case map_of props key of Some v \<Rightarrow> v | None \<Rightarrow> Undefined)"
| "obj_get (Inst c props) key = (case map_of props key of Some v \<Rightarrow> v | None \<Rightarrow> Undefined)"
| "obj_get (Vec3 x y z) key =
     (if key = ''x'' then x else if key = ''y'' then y else if key = ''z'' then z else Undefined)"
| "obj_get _ key = Undefined"

text \<open>
  The assignment \<^verbatim>\<open>obj[key] = v\<close> on an object built from \<^verbatim>\<open>{}\<close>: an existing property is
  overwritten in place and a new one is added last. The key \<^verbatim>\<open>__proto__\<close> is the
  accessor inherited from \<^verbatim>\<open>Object.prototype\<close>: assigning to it creates no own property.
  (An integer-like key is listed by \<^verbatim>\<open>Object.keys\<close> before the other keys, in ascending
  order; a list that gives the properties in \<^verbatim>\<open>Object.keys\<close> order already has such keys
  there, and assigning the keys of such a list in its order adds each of them last.)
\<close>

fun obj_set :: "(string \<times> jsval) list \<Rightarrow> string \<Rightarrow> jsval \<Rightarrow> (string \<times> jsval) list" where
  "obj_set [] key v = (if key = ''__proto__'' then [] else [(key, v)])"
| "obj_set (p # ps) key v =
     (if key = ''__proto__'' then p # ps
      else if fst p = key then (key, v) # ps
      else p # obj_set ps key v)"

text \<open>\<^verbatim>\<open>new Vector3(x, y, z)\<close>: each parameter defaults to 0 when it is \<^verbatim>\<open>undefined\<close>.\<close>

definition Vector3_new :: "jsval \<Rightarrow> jsval \<Rightarrow> jsval \<Rightarrow> jsval" where
  "Vector3_new x y z =
     Vec3 (if x = Undefined then Num (Fin 0) else x)
          (if y = Undefined then Num (Fin 0) else y)
          (if z = Undefined then Num (Fin 0) else z)"

text \<open>
  A list of results as \<^verbatim>\<open>Array.prototype.map\<close> with a throwing callback gives it: the
  first exception, or all the values.
\<close>

fun all_or_first_error :: "('e + 'a) list \<Rightarrow> 'e + 'a list" where
  "all_or_first_error [] = Inr []"
| "all_or_first_error (r # rs) =
     (case r of
        Inl e \<Rightarrow> Inl e
      | Inr v \<Rightarrow> (case all_or_first_error rs of Inl e \<Rightarrow> Inl e | Inr vs \<Rightarrow> Inr (v # vs)))"

text \<open>The nesting depth of a value, by which the recursion of the codec terminates.\<close>

fun depth :: "jsval \<Rightarrow> nat" where
  "depth (Arr xs) = Suc (foldr max (map depth xs) 0)"
| "depth (Obj props) = Suc (foldr max (map (\<lambda>p. depth (snd p)) props) 0)"
| "depth (Inst c props) = Suc (foldr max (map (\<lambda>p. depth (snd p)) props) 0)"
| "depth (Vec3 x y z) = Suc (max (depth x) (max (depth y) (depth z)))"
| "depth _ = 0"

definition args_depth :: "jsval list \<Rightarrow> nat" where
  "args_depth args = foldr max (map depth args) 0"

section \<open>Value codec (rpc-types.js)\<close>

text \<open>
  \<^verbatim>\<open>RpcTypes.nameFor(obj)\<close>. \<open>None\<close> stands for both \<^verbatim>\<open>null\<close> (a falsy value) and the
  \<^verbatim>\<open>undefined\<close> of falling off the end; the caller only tests the result with \<^verbatim>\<open>!\<close>.
\<close>

definition nameFor :: "jsval \<Rightarrow> string option" where
  "nameFor obj =
     (if falsy obj then None
      else if instanceof_Vector3 obj then Some ''v3''
      else if isArray obj then Some ''a''
      else if typeof obj = ''object'' then Some ''o''
      else None)"

text \<open>
  The first statement of \<^verbatim>\<open>RpcArguments.serialize\<close>: one argument that is an array is the
  argument list itself, anything else is taken positionally from \<^verbatim>\<open>arguments\<close>.
\<close>

definition effective_args :: "jsval list \<Rightarrow> jsval list" where
  "effective_args arguments =
     (if length arguments = 1 \<and> isArray (hd arguments) then elements (hd arguments) else arguments)"

lemma foldr_max_ge: "x \<in> set xs \<Longrightarrow> x \<le> foldr max xs (0::nat)"
  by (induction xs) auto

lemma foldr_max_le: "(\<And>x. x \<in> set xs \<Longrightarrow> x \<le> n) \<Longrightarrow> foldr max xs (0::nat) \<le> n"
  by (induction xs) auto

lemma args_depth_ge: "x \<in> set args \<Longrightarrow> depth x \<le> args_depth args"
  by (simp add: args_depth_def foldr_max_ge)

lemma args_depth_le: "(\<And>x. x \<in> set args \<Longrightarrow> depth x \<le> n) \<Longrightarrow> args_depth args \<le> n"
  unfolding args_depth_def by (rule foldr_max_le) auto

lemma depth_map_of:
  "map_of props key = Some v \<Longrightarrow> depth v \<le> foldr max (map (\<lambda>p. depth (snd p)) props) 0"
  by (rule foldr_max_ge) (force dest: map_of_SomeD)

lemma depth_obj_get: "depth (obj_get obj key) \<le> depth obj - Suc 0"
  by (cases obj) (auto simp: depth_map_of split: option.splits)

lemma args_depth_Str: "args_depth (map Str ks) = 0"
  by (induction ks) (simp_all add: args_depth_def)

lemma nameFor_a: "nameFor obj = Some ''a'' \<Longrightarrow> \<exists>xs. obj = Arr xs"
  by (cases obj) (auto simp: nameFor_def split: if_splits)

lemma nameFor_o:
  "nameFor obj = Some ''o'' \<Longrightarrow> (\<exists>props. obj = Obj props) \<or> (\<exists>c props. obj = Inst c props)"
  by (cases obj) (auto simp: nameFor_def split: if_splits)

lemma nameFor_v3: "nameFor obj = Some ''v3'' \<Longrightarrow> \<exists>x y z. obj = Vec3 x y z"
  by (cases obj) (auto simp: nameFor_def split: if_splits)

text \<open>
  \<^verbatim>\<open>RpcTypes.serialize(obj)\<close> and \<^verbatim>\<open>RpcArguments.serialize(...)\<close>, the latter applied to the
  list of the arguments it is called with: \<^verbatim>\<open>serialize(obj)\<close> is \<open>[obj]\<close> and
  \<^verbatim>\<open>serialize(obj.x, obj.y, obj.z)\<close> is a list of three.
\<close>

function RpcTypes_serialize :: "jsval \<Rightarrow> error + jsval"
  and RpcArguments_serialize :: "jsval list \<Rightarrow> error + jsval" where
  "RpcTypes_serialize obj =
     (case nameFor obj of
        None \<Rightarrow> Inr obj
      | Some typeName \<Rightarrow>
          if typeName = ''a'' then
            (case RpcArguments_serialize [obj] of
               Inl e \<Rightarrow> Inl e
             | Inr r \<Rightarrow> Inr (Arr [Str typeName, r]))
          else if typeName = ''o'' then
            (case RpcArguments_serialize [Arr (map Str (Object_keys obj))] of
               Inl e \<Rightarrow> Inl e
             | Inr ks \<Rightarrow>
                 (case RpcArguments_serialize [Arr (map (obj_get obj) (Object_keys obj))] of
                    Inl e \<Rightarrow> Inl e
                  | Inr vs \<Rightarrow> Inr (Arr [Str typeName, ks, vs])))
          else if typeName = ''v3'' then
            (case RpcArguments_serialize [obj_get obj ''x'', obj_get obj ''y'', obj_get obj ''z''] of
               Inl e \<Rightarrow> Inl e
             | Inr r \<Rightarrow> Inr (Arr [Str typeName, r]))
          else Inl (NoWayToSerialize obj))"
| "RpcArguments_serialize arguments =
     (if effective_args arguments = [] then Inr Null
      else case all_or_first_error (map RpcTypes_serialize (effective_args arguments)) of
             Inl e \<Rightarrow> Inl e
           | Inr rs \<Rightarrow> Inr (Arr rs))"
  by pat_completeness auto

termination
proof (relation "measure (\<lambda>s. case s of
          Inl obj \<Rightarrow> 2 * depth obj
        | Inr arguments \<Rightarrow> 2 * args_depth (effective_args arguments) + 1)", goal_cases)
  case 1
  show ?case by simp
next
  case (2 obj typeName)
  then obtain xs where "obj = Arr xs" using nameFor_a by blast
  then show ?case by (simp add: effective_args_def args_depth_def)
next
  case (3 obj typeName)
  then have "0 < depth obj" using nameFor_o by fastforce
  then show ?case by (simp add: effective_args_def args_depth_Str)
next
  case (4 obj typeName ks)
  then have pos: "0 < depth obj" using nameFor_o by fastforce
  have "args_depth (map (obj_get obj) (Object_keys obj)) \<le> depth obj - Suc 0"
    by (rule args_depth_le) (auto simp: depth_obj_get)
  with pos show ?case by (simp add: effective_args_def)
next
  case (5 obj typeName)
  then obtain x y z where "obj = Vec3 x y z" using nameFor_v3 by blast
  then show ?case by (simp add: effective_args_def args_depth_def)
next
  case (6 arguments x)
  then show ?case using args_depth_ge [of x "effective_args arguments"] by simp
qed

text \<open>
  The conversion of a value to a property key is the engine's. It is the identity on
  strings; for the other values it is the parameter \<open>ToString\<close>.
\<close>

type_synonym to_string = "jsval \<Rightarrow> string"

definition property_key :: "to_string \<Rightarrow> jsval \<Rightarrow> string" where
  "property_key ToString key = (case key of Str s \<Rightarrow> s | _ \<Rightarrow> ToString key)"

text \<open>
  The \<^verbatim>\<open>keys.reduce(...)\<close> of \<^verbatim>\<open>RpcTypes.read\<close>, from the accumulator \<open>obj\<close> and the index
  \<open>index\<close> on: \<^verbatim>\<open>obj[key] = vals[index]\<close> for each key in turn.
\<close>

fun reduce_keys :: "to_string \<Rightarrow> jsval list \<Rightarrow> (string \<times> jsval) list \<Rightarrow> nat \<Rightarrow> jsval list
    \<Rightarrow> (string \<times> jsval) list" where
  "reduce_keys ToString vals obj index [] = obj"
| "reduce_keys ToString vals obj index (key # keys) =
     reduce_keys ToString vals (obj_set obj (property_key ToString key) (idx vals index)) (Suc index) keys"

lemma depth_idx: "depth (idx xs i) \<le> args_depth xs"
  by (simp add: idx_def args_depth_ge)

lemma args_depth_tl: "args_depth (tl xs) \<le> args_depth xs"
  by (cases xs) (simp_all add: args_depth_def)

text \<open>
  \<^verbatim>\<open>RpcArguments.read(serializedArgs)\<close>, the arrow function it maps over the raw arguments
  (\<open>read_rawArg\<close>: the tag is \<^verbatim>\<open>rawArg[0]\<close>, and \<^verbatim>\<open>shift()\<close> leaves the rest), and
  \<^verbatim>\<open>RpcTypes.read(typeName, serialized)\<close>, whose \<^verbatim>\<open>switch\<close> compares with \<^verbatim>\<open>===\<close>. A truthy
  \<open>serializedArgs\<close> that is not an array has no \<^verbatim>\<open>map\<close> method when it comes from
  \<^verbatim>\<open>JSON.parse\<close>, and calling it raises a TypeError. \<open>read\<close> shifts the arrays of the wire
  form in place; the model reads a wire form once.
\<close>

function RpcArguments_read :: "to_string \<Rightarrow> jsval \<Rightarrow> error + jsval list"
  and read_rawArg :: "to_string \<Rightarrow> jsval \<Rightarrow> error + jsval"
  and RpcTypes_read :: "to_string \<Rightarrow> jsval \<Rightarrow> jsval list \<Rightarrow> error + jsval" where
  "RpcArguments_read ToString serializedArgs =
     (if falsy serializedArgs then Inr []
      else case serializedArgs of
             Arr rawArgs \<Rightarrow> all_or_first_error (map (read_rawArg ToString) rawArgs)
           | _ \<Rightarrow> Inl (TypeError ''serializedArgs.map is not a function''))"
| "read_rawArg ToString rawArg =
     (case rawArg of
        Arr items \<Rightarrow> RpcTypes_read ToString (idx items 0) (tl items)
      | _ \<Rightarrow> Inr rawArg)"
| "RpcTypes_read ToString typeName serialized =
     (if typeName = Str ''a'' then
        (case RpcArguments_read ToString (idx serialized 0) of
           Inl e \<Rightarrow> Inl e
         | Inr r \<Rightarrow> Inr (Arr r))
      else if typeName = Str ''o'' then
        (case RpcArguments_read ToString (idx serialized 0) of
           Inl e \<Rightarrow> Inl e
         | Inr keys \<Rightarrow>
             (case RpcArguments_read ToString (idx serialized 1) of
                Inl e \<Rightarrow> Inl e
              | Inr vals \<Rightarrow> Inr (Obj (reduce_keys ToString vals [] 0 keys))))
      else if typeName = Str ''v3'' then
        (case RpcArguments_read ToString (idx serialized 0) of
           Inl e \<Rightarrow> Inl e
         | Inr vector \<Rightarrow> Inr (Vector3_new (idx vector 0) (idx vector 1) (idx vector 2)))
      else Inl (UnableToRead typeName))"
  by pat_completeness auto

termination
proof (relation "measure (\<lambda>s. case s of
          Inl (ToString, serializedArgs) \<Rightarrow> 3 * depth serializedArgs
        | Inr (Inl (ToString, rawArg)) \<Rightarrow> 3 * depth rawArg + 2
        | Inr (Inr (ToString, typeName, serialized)) \<Rightarrow> 3 * args_depth serialized + 1)", goal_cases)
  case 1
  show ?case by simp
next
  case (2 ToString serializedArgs rawArgs x)
  then show ?case using args_depth_ge [of x rawArgs] by (simp add: args_depth_def)
next
  case (3 ToString rawArg items)
  then show ?case using args_depth_tl [of items] by (simp add: args_depth_def)
next
  case (4 ToString typeName serialized)
  then show ?case using depth_idx [of serialized 0] by simp
next
  case (5 ToString typeName serialized)
  then show ?case using depth_idx [of serialized 0] by simp
next
  case (6 ToString typeName serialized keys)
  then show ?case using depth_idx [of serialized 1] by simp
next
  case (7 ToString typeName serialized)
  then show ?case using depth_idx [of serialized 0] by simp
qed

text \<open>
  The values the codec represents: the primitives, \<^verbatim>\<open>null\<close> and \<^verbatim>\<open>undefined\<close>, a
  \<^verbatim>\<open>Vector3\<close> of three numbers, a sequence of such values, and a keyed map of such values
  whose own keys are distinct (as the keys of any object are) and do not include
  \<^verbatim>\<open>__proto__\<close>, which \<^verbatim>\<open>RpcTypes.read\<close> cannot set as an own property. Functions and
  instances of other classes are not among them.
\<close>

fun is_number :: "jsval \<Rightarrow> bool" where
  "is_number (Num n) = True"
| "is_number _ = False"

fun representable :: "jsval \<Rightarrow> bool" where
  "representable (Fn f) = False"
| "representable (Inst c props) = False"
| "representable (Arr xs) = (\<forall>x\<in>set xs. representable x)"
| "representable (Obj props) =
     (distinct (map fst props) \<and> ''__proto__'' \<notin> set (map fst props) \<and>
      (\<forall>p\<in>set props. representable (snd p)))"
| "representable (Vec3 x y z) = (is_number x \<and> is_number y \<and> is_number z)"
| "representable _ = True"

section \<open>Rate limiter (rpc.js)\<close>

text \<open>
  The configuration object built by \<^verbatim>\<open>_buildConfig\<close>: \<^verbatim>\<open>{maxRate: 5, unreliable: false}\<close>
  overlaid with the script's options.
\<close>

record rpcConfig =
  maxRate :: int
  unreliable :: bool

text \<open>
  \<^verbatim>\<open>GlobalRateLimiter\<close>: the fields \<^verbatim>\<open>this.last\<close> (the window start, a \<^verbatim>\<open>Date.now()\<close>
  value in milliseconds, \<open>None\<close> while it is still undefined) and \<^verbatim>\<open>this.calls\<close>.
  The constructor leaves \<^verbatim>\<open>calls\<close> undefined; it is written together with
  \<^verbatim>\<open>last\<close> before it is ever read, so the model starts it at 0.
\<close>

record GlobalRateLimiter =
  config :: rpcConfig
  last_at :: "int option"
  calls :: int

definition GlobalRateLimiter_new :: "rpcConfig \<Rightarrow> GlobalRateLimiter" where
  "GlobalRateLimiter_new cfg = \<lparr>config = cfg, last_at = None, calls = 0\<rparr>"

text \<open>
  The guard \<^verbatim>\<open>!this.last || now - this.last > 1000\<close>. \<^verbatim>\<open>!this.last\<close> holds when
  the field is undefined and also when it is the number 0.
\<close>

definition fresh_window :: "int \<Rightarrow> GlobalRateLimiter \<Rightarrow> bool" where
  "fresh_window now this =
     (case last_at this of
        None \<Rightarrow> True
      | Some l \<Rightarrow> l = 0 \<or> now - l > 1000)"

text \<open>
  \<^verbatim>\<open>allows()\<close>, with \<^verbatim>\<open>Date.now()\<close> passed in as \<open>now\<close>. The result is the returned
  boolean and the limiter after the call; \<^verbatim>\<open>++this.calls\<close> is kept on denial too.
\<close>

definition GlobalRateLimiter_allows :: "int \<Rightarrow> GlobalRateLimiter \<Rightarrow> bool \<times> GlobalRateLimiter" where
  "GlobalRateLimiter_allows now this =
     (if fresh_window now this
      then (True, this\<lparr>last_at := Some now, calls := 1\<rparr>)
      else (let this' = this\<lparr>calls := calls this + 1\<rparr>
            in if calls this' > maxRate (config this') then (False, this') else (True, this')))"

text \<open>A run of calls at the given timestamps, oldest first: the answers and the final limiter.\<close>

fun allows_seq :: "int list \<Rightarrow> GlobalRateLimiter \<Rightarrow> bool list \<times> GlobalRateLimiter" where
  "allows_seq [] this = ([], this)"
| "allows_seq (now # rest) this =
     (let (ok, this') = GlobalRateLimiter_allows now this;
          (oks, this'') = allows_seq rest this'
      in (ok # oks, this''))"

section \<open>Dispatch (rpc.js)\<close>












datatype 'a property = Entry 'a | Inherited | Absent
















subsection \<open>Fixtures\<close>








section \<open>Participants (client-minimal.js)\<close>

text \<open>The properties of a \<^verbatim>\<open>state\<close> object \<^verbatim>\<open>{x, y, z}\<close>.\<close>

record position =
  pos_x :: number
  pos_y :: number
  pos_z :: number

text \<open>
  A participant. \<^verbatim>\<open>this.state\<close> is a reference to an object: \<open>state_id\<close> stands for the
  identity of the object it refers to and \<open>state\<close> for that object's properties, so that
  putting another object with equal properties in its place is a change of the
  participant.
\<close>

record MinimalClient =
  uuid :: string
  state_id :: nat
  state :: position

text \<open>
  The argument of \<^verbatim>\<open>updateState\<close>: position fields, each present or not (\<open>None\<close> for a
  field that is missing or \<^verbatim>\<open>undefined\<close>).
\<close>

record positionFields =
  new_x :: "number option"
  new_y :: "number option"
  new_z :: "number option"

text \<open>The constructor, given the identity of the object its literal \<^verbatim>\<open>{x: 0, y: 0, z: 0}\<close> creates.\<close>

definition MinimalClient_new :: "nat \<Rightarrow> string \<Rightarrow> MinimalClient" where
  "MinimalClient_new literal_id client_uuid =
     \<lparr>uuid = client_uuid, state_id = literal_id,
      state = \<lparr>pos_x = Fin 0, pos_y = Fin 0, pos_z = Fin 0\<rparr>\<rparr>"

text \<open>\<^verbatim>\<open>===\<close> on numbers: \<^verbatim>\<open>NaN\<close> is not equal to anything, itself included.\<close>

fun strict_equals :: "number \<Rightarrow> number \<Rightarrow> bool" where
  "strict_equals (Fin a) (Fin b) = (a = b)"
| "strict_equals _ _ = False"

text \<open>
  \<^verbatim>\<open>_.merge({x: current.x, y: current.y, z: current.z}, newState)\<close>. lodash is not part of
  the repository; as documented, a source property that resolves to \<^verbatim>\<open>undefined\<close> is
  skipped when the destination has a value, and any other one is assigned. The result
  is the object that the literal created.
\<close>

definition lodash_merge :: "position \<Rightarrow> positionFields \<Rightarrow> position" where
  "lodash_merge object source =
     \<lparr>pos_x = (case new_x source of None \<Rightarrow> pos_x object | Some v \<Rightarrow> v),
      pos_y = (case new_y source of None \<Rightarrow> pos_y object | Some v \<Rightarrow> v),
      pos_z = (case new_z source of None \<Rightarrow> pos_z object | Some v \<Rightarrow> v)\<rparr>"

text \<open>The condition under which \<^verbatim>\<open>updateState\<close> returns early.\<close>

definition position_unchanged :: "position \<Rightarrow> position \<Rightarrow> bool" where
  "position_unchanged current newState =
     (strict_equals (pos_x current) (pos_x newState) \<and>
      strict_equals (pos_y current) (pos_y newState) \<and>
      strict_equals (pos_z current) (pos_z newState))"

text \<open>
  \<^verbatim>\<open>updateState(newState)\<close>, given the identity of the object that the literal passed to
  \<^verbatim>\<open>_.merge\<close> creates, a new object at every call. The assignment \<^verbatim>\<open>this.state = newState\<close>
  puts that object in the place of the current one.
\<close>

definition updateState :: "nat \<Rightarrow> MinimalClient \<Rightarrow> positionFields \<Rightarrow> MinimalClient" where
  "updateState literal_id this newState =
     (let current = state this;
          merged = lodash_merge current newState
      in if position_unchanged current merged then this
         else this\<lparr>state_id := literal_id, state := merged\<rparr>)"

section \<open>Virtual document (dom.js)\<close>

text \<open>
  Underlying parsed nodes and \<^verbatim>\<open>VMElement\<close> wrapper objects are references; each is
  modelled by a number that stands for its identity.
\<close>

type_synonym node = nat

type_synonym wrapper = nat

text \<open>
  The links the parser keeps on its nodes, as far as \<^verbatim>\<open>dom.js\<close> reads them: parent,
  previous and next sibling (\<open>None\<close> for \<^verbatim>\<open>null\<close>) and the list of children.
\<close>

record tree =
  node_parent :: "node \<rightharpoonup> node"
  node_prev :: "node \<rightharpoonup> node"
  node_next :: "node \<rightharpoonup> node"
  node_children :: "node \<Rightarrow> node list"

text \<open>The node-valued properties \<^verbatim>\<open>_nodeProp\<close> is installed for, read as \<^verbatim>\<open>node[name]\<close>.\<close>

datatype nodeProp = parentNode | previousSibling | nextSibling | firstChild | lastChild


text \<open>
  The state \<^verbatim>\<open>dom.js\<close> works on: the tree, the \<^verbatim>\<open>__vmElement\<close> property of each node
  (\<open>None\<close> while it is not set), the \<^verbatim>\<open>ElementToCheerio\<close> weak map from wrappers to
  nodes, and the identity the next \<^verbatim>\<open>new VMElement\<close> gets.
\<close>

record dom =
  doc_tree :: tree
  vmElement :: "node \<rightharpoonup> wrapper"
  ElementToCheerio :: "wrapper \<rightharpoonup> node"
  next_wrapper :: wrapper


text \<open>\<^verbatim>\<open>VMElement.from($, cheerioElement)\<close>: the wrapper (\<open>None\<close> for \<^verbatim>\<open>null\<close>) and the state after.\<close>

definition VMElement_from :: "dom \<Rightarrow> node option \<Rightarrow> wrapper option \<times> dom" where
  "VMElement_from d cheerioElement =
     (case cheerioElement of
        None \<Rightarrow> (None, d)
      | Some n \<Rightarrow>
          (case vmElement d n of
             Some w \<Rightarrow> (Some w, d)
           | None \<Rightarrow>
               (let newElement = next_wrapper d
                in (Some newElement,
                    d\<lparr>vmElement := (vmElement d)(n \<mapsto> newElement),
                      ElementToCheerio := (ElementToCheerio d)(newElement \<mapsto> n),
                      next_wrapper := Suc newElement\<rparr>))))"

text \<open>Mapping \<^verbatim>\<open>VMElement.from\<close> over a list of nodes, first to last.\<close>

fun from_each :: "dom \<Rightarrow> node list \<Rightarrow> wrapper list \<times> dom" where
  "from_each d [] = ([], d)"
| "from_each d (n # ns) =
     (case VMElement_from d (Some n) of
        (w, d') \<Rightarrow>
          (case from_each d' ns of
             (ws, d'') \<Rightarrow> ((case w of None \<Rightarrow> ws | Some v \<Rightarrow> v # ws), d'')))"





definition VMElement_childNodes :: "dom \<Rightarrow> wrapper \<Rightarrow> wrapper list \<times> dom" where
  "VMElement_childNodes d this =
     (case ElementToCheerio d this of
        None \<Rightarrow> ([], d)
      | Some n \<Rightarrow> from_each d (node_children (doc_tree d) n))"

text \<open>
  \<^verbatim>\<open>appendChild(child)\<close> of the wrapper \<open>this\<close>. cheerio's \<^verbatim>\<open>append\<close> is the parameter
  \<open>appendTo\<close>. The result is the exception raised, if any, and the state after the call.
  A \<open>child\<close> that is not a wrapper has no entry in \<^verbatim>\<open>ElementToCheerio\<close>, and reading
  \<^verbatim>\<open>parentNode\<close> of \<^verbatim>\<open>undefined\<close> raises a TypeError.
\<close>

definition VMElement_appendChild ::
    "(tree \<Rightarrow> node \<Rightarrow> node \<Rightarrow> tree) \<Rightarrow> dom \<Rightarrow> wrapper \<Rightarrow> wrapper \<Rightarrow> (error + unit) \<times> dom" where
  "VMElement_appendChild appendTo d this child =
     (case ElementToCheerio d child of
        None \<Rightarrow> (Inl (TypeError ''Cannot read property parentNode of undefined''), d)
      | Some childCheerio \<Rightarrow>
          (case node_parent (doc_tree d) childCheerio of
             Some p \<Rightarrow> (Inl (AlreadyHasParent child), d)
           | None \<Rightarrow>
               (case ElementToCheerio d this of
                  None \<Rightarrow> (Inl (TypeError ''appendChild is not a function''), d)
                | Some n \<Rightarrow> (Inr (), d\<lparr>doc_tree := appendTo (doc_tree d) n childCheerio\<rparr>))))"


subsection \<open>Fixtures\<close>

text \<open>
  Modelled from cheerio's documentation of \<^verbatim>\<open>append\<close>, for a child that is detached: the
  child becomes the last child of the node.
\<close>

definition cheerio_append :: "tree \<Rightarrow> node \<Rightarrow> node \<Rightarrow> tree" where
  "cheerio_append t n c =
     (case rev (node_children t n) of
        [] \<Rightarrow>
          t\<lparr>node_parent := (node_parent t)(c \<mapsto> n),
            node_prev := (node_prev t)(c := None),
            node_next := (node_next t)(c := None),
            node_children := (node_children t)(n := [c])\<rparr>
      | l # ls \<Rightarrow>
          t\<lparr>node_parent := (node_parent t)(c \<mapsto> n),
            node_prev := (node_prev t)(c \<mapsto> l),
            node_next := (node_next t)(l \<mapsto> c, c := None),
            node_children := (node_children t)(n := node_children t n @ [c])\<rparr>)"

text \<open>
  A document whose node 1 has the children 2 (with id \<^verbatim>\<open>door\<close>) and 3 (with id
  \<^verbatim>\<open>link\<close>), a detached node 4, the selector results on it, and the states in which
  node 2, and then all of 2, 3 and 4, have been wrapped.
\<close>

definition sample_tree :: tree where
  "sample_tree =
     \<lparr>node_parent = [2 \<mapsto> 1, 3 \<mapsto> 1],
      node_prev = [3 \<mapsto> 2],
      node_next = [2 \<mapsto> 3],
      node_children = (\<lambda>n. [])(1 := [2, 3])\<rparr>"



definition all_wrapped :: dom where
  "all_wrapped =
     \<lparr>doc_tree = sample_tree, vmElement = [2 \<mapsto> 0, 3 \<mapsto> 1, 4 \<mapsto> 2],
      ElementToCheerio = [0 \<mapsto> 2, 1 \<mapsto> 3, 2 \<mapsto> 4], next_wrapper = 3\<rparr>"

section \<open>Properties of the rate limiter\<close>

lemma allows_fresh:
  "fresh_window now this \<Longrightarrow>
   GlobalRateLimiter_allows now this = (True, this\<lparr>last_at := Some now, calls := 1\<rparr>)"
  by (simp add: GlobalRateLimiter_allows_def)

lemma allows_same_window:
  "last_at this = Some l \<Longrightarrow> l \<noteq> 0 \<Longrightarrow> now - l \<le> 1000 \<Longrightarrow>
   GlobalRateLimiter_allows now this =
     (calls this + 1 \<le> maxRate (config this), this\<lparr>calls := calls this + 1\<rparr>)"
  by (auto simp: GlobalRateLimiter_allows_def fresh_window_def Let_def)

text \<open>
  Claim C3, amended at the window boundary. With \<^verbatim>\<open>maxRate = 5\<close>, let a call at \<open>t0\<close>
  (a nonzero timestamp) open a fresh window. It and the next four calls at most 1000ms
  after \<open>t0\<close> are admitted and a sixth such call is denied. Whatever the count of a
  window started at \<open>t0\<close> has reached, a call strictly more than 1000ms after \<open>t0\<close> is
  admitted and starts a new window with count 1.
\<close>

theorem limiter_window_strict:
  "(maxRate (config s) = 5 \<and> fresh_window t0 s \<and> t0 \<noteq> 0 \<and>
    t1 - t0 \<le> 1000 \<and> t2 - t0 \<le> 1000 \<and> t3 - t0 \<le> 1000 \<and> t4 - t0 \<le> 1000 \<and> t5 - t0 \<le> 1000
    \<longrightarrow> fst (allows_seq [t0, t1, t2, t3, t4, t5] s) = [True, True, True, True, True, False])
   \<and> (last_at s' = Some t0 \<and> t - t0 > 1000
    \<longrightarrow> GlobalRateLimiter_allows t s' = (True, s'\<lparr>last_at := Some t, calls := 1\<rparr>))"
proof (intro conjI impI)
  assume a: "maxRate (config s) = 5 \<and> fresh_window t0 s \<and> t0 \<noteq> 0 \<and>
    t1 - t0 \<le> 1000 \<and> t2 - t0 \<le> 1000 \<and> t3 - t0 \<le> 1000 \<and> t4 - t0 \<le> 1000 \<and> t5 - t0 \<le> 1000"
  define w where "w = (\<lambda>n. s\<lparr>last_at := Some t0, calls := n\<rparr>)"
  have first: "GlobalRateLimiter_allows t0 s = (True, w 1)"
    using a by (simp add: allows_fresh w_def)
  have step: "GlobalRateLimiter_allows u (w n) = (n + 1 \<le> 5, w (n + 1))" if "u - t0 \<le> 1000" for u n
    using a that allows_same_window [of "w n" t0 u] by (simp add: w_def)
  show "fst (allows_seq [t0, t1, t2, t3, t4, t5] s) = [True, True, True, True, True, False]"
    using a by (simp add: first step)
next
  assume b: "last_at s' = Some t0 \<and> t - t0 > 1000"
  then have "fresh_window t s'"
    by (simp add: fresh_window_def)
  then show "GlobalRateLimiter_allows t s' = (True, s'\<lparr>last_at := Some t, calls := 1\<rparr>)"
    by (rule allows_fresh)
qed

theorem limiter_window_strict_witness:
  "fst (allows_seq [1, 1, 200, 500, 900, 1001]
          (GlobalRateLimiter_new \<lparr>maxRate = 5, unreliable = False\<rparr>))
     = [True, True, True, True, True, False]
   \<and> GlobalRateLimiter_allows 1002 \<lparr>config = \<lparr>maxRate = 5, unreliable = False\<rparr>, last_at = Some 1, calls = 6\<rparr>
     = (True, \<lparr>config = \<lparr>maxRate = 5, unreliable = False\<rparr>, last_at = Some 1002, calls = 1\<rparr>)"
  using limiter_window_strict
    [of "GlobalRateLimiter_new \<lparr>maxRate = 5, unreliable = False\<rparr>" 1 1 200 500 900 1001
        "\<lparr>config = \<lparr>maxRate = 5, unreliable = False\<rparr>, last_at = Some 1, calls = 6\<rparr>" 1002]
  by (simp add: GlobalRateLimiter_new_def fresh_window_def)

text \<open>
  The claim as written fails at the boundary: a call exactly 1000ms after the window
  start still belongs to the old window (the guard is \<^verbatim>\<open>now - this.last > 1000\<close>), so
  after five admitted calls it is denied.
\<close>

theorem limiter_boundary_counterexample:
  "fst (allows_seq [1, 1, 1, 1, 1, 1001]
          (GlobalRateLimiter_new \<lparr>maxRate = 5, unreliable = False\<rparr>))
     = [True, True, True, True, True, False]"
  by (simp add: GlobalRateLimiter_new_def GlobalRateLimiter_allows_def fresh_window_def)

text \<open>
  Claim C10. The first call of a fresh window (no window start yet, or more than 1000ms
  after it) is admitted whatever \<^verbatim>\<open>maxRate\<close> is, and sets the count to 1. A limiter
  with \<^verbatim>\<open>maxRate = 0\<close> therefore admits the call that opens a window and denies the
  following calls of that window.
\<close>

theorem fresh_window_ignores_maxRate:
  "((last_at this = None \<or> (\<exists>l. last_at this = Some l \<and> now - l > 1000))
      \<longrightarrow> GlobalRateLimiter_allows now this = (True, this\<lparr>last_at := Some now, calls := 1\<rparr>))
   \<and> (t \<noteq> 0 \<and> t' - t \<le> 1000 \<and> maxRate cfg = 0
      \<longrightarrow> fst (allows_seq [t, t'] (GlobalRateLimiter_new cfg)) = [True, False])"
proof (intro conjI impI)
  assume "last_at this = None \<or> (\<exists>l. last_at this = Some l \<and> now - l > 1000)"
  then have "fresh_window now this"
    by (auto simp: fresh_window_def)
  then show "GlobalRateLimiter_allows now this = (True, this\<lparr>last_at := Some now, calls := 1\<rparr>)"
    by (rule allows_fresh)
next
  assume a: "t \<noteq> 0 \<and> t' - t \<le> 1000 \<and> maxRate cfg = 0"
  define opened where "opened = (GlobalRateLimiter_new cfg)\<lparr>last_at := Some t, calls := 1\<rparr>"
  have "fresh_window t (GlobalRateLimiter_new cfg)"
    by (simp add: fresh_window_def GlobalRateLimiter_new_def)
  then have first: "GlobalRateLimiter_allows t (GlobalRateLimiter_new cfg) = (True, opened)"
    unfolding opened_def by (rule allows_fresh)
  have second: "GlobalRateLimiter_allows t' opened = (False, opened\<lparr>calls := 2\<rparr>)"
    using a allows_same_window [of opened t t']
    by (simp add: opened_def GlobalRateLimiter_new_def)
  show "fst (allows_seq [t, t'] (GlobalRateLimiter_new cfg)) = [True, False]"
    by (simp add: first second)
qed

theorem fresh_window_ignores_maxRate_witness:
  "GlobalRateLimiter_allows 5000 \<lparr>config = \<lparr>maxRate = 0, unreliable = False\<rparr>, last_at = Some 10, calls = 7\<rparr>
     = (True, \<lparr>config = \<lparr>maxRate = 0, unreliable = False\<rparr>, last_at = Some 5000, calls = 1\<rparr>)
   \<and> fst (allows_seq [42, 43] (GlobalRateLimiter_new \<lparr>maxRate = 0, unreliable = False\<rparr>)) = [True, False]"
  using fresh_window_ignores_maxRate
    [of "\<lparr>config = \<lparr>maxRate = 0, unreliable = False\<rparr>, last_at = Some 10, calls = 7\<rparr>" 5000
        42 43 "\<lparr>maxRate = 0, unreliable = False\<rparr>"]
  by simp

section \<open>Properties of the value codec\<close>

declare RpcTypes_serialize.simps [simp del] RpcArguments_serialize.simps [simp del]
declare RpcArguments_read.simps [simp del] read_rawArg.simps [simp del] RpcTypes_read.simps [simp del]

lemma serialize_untyped: "nameFor obj = None \<Longrightarrow> RpcTypes_serialize obj = Inr obj"
  by (simp add: RpcTypes_serialize.simps)

lemma serialize_Arr:
  "RpcTypes_serialize (Arr xs) =
     (case RpcArguments_serialize [Arr xs] of Inl e \<Rightarrow> Inl e | Inr r \<Rightarrow> Inr (Arr [Str ''a'', r]))"
  by (simp add: RpcTypes_serialize.simps [of "Arr xs"] nameFor_def)

lemma serialize_Obj:
  "RpcTypes_serialize (Obj props) =
     (case RpcArguments_serialize [Arr (map Str (map fst props))] of
        Inl e \<Rightarrow> Inl e
      | Inr ks \<Rightarrow>
          (case RpcArguments_serialize [Arr (map (obj_get (Obj props)) (map fst props))] of
             Inl e \<Rightarrow> Inl e
           | Inr vs \<Rightarrow> Inr (Arr [Str ''o'', ks, vs])))"
  by (simp add: RpcTypes_serialize.simps [of "Obj props"] nameFor_def cong: sum.case_cong)

lemma serialize_Inst:
  "RpcTypes_serialize (Inst c props) =
     (case RpcArguments_serialize [Arr (map Str (map fst props))] of
        Inl e \<Rightarrow> Inl e
      | Inr ks \<Rightarrow>
          (case RpcArguments_serialize [Arr (map (obj_get (Inst c props)) (map fst props))] of
             Inl e \<Rightarrow> Inl e
           | Inr vs \<Rightarrow> Inr (Arr [Str ''o'', ks, vs])))"
  by (simp add: RpcTypes_serialize.simps [of "Inst c props"] nameFor_def cong: sum.case_cong)

lemma serialize_Vec3:
  "RpcTypes_serialize (Vec3 x y z) =
     (case RpcArguments_serialize [x, y, z] of Inl e \<Rightarrow> Inl e | Inr r \<Rightarrow> Inr (Arr [Str ''v3'', r]))"
  by (simp add: RpcTypes_serialize.simps [of "Vec3 x y z"] nameFor_def)

lemma serialize_explicit:
  "RpcArguments_serialize [Arr args] =
     (if args = [] then Inr Null
      else case all_or_first_error (map RpcTypes_serialize args) of Inl e \<Rightarrow> Inl e | Inr rs \<Rightarrow> Inr (Arr rs))"
  by (simp add: RpcArguments_serialize.simps effective_args_def)

lemma serialize_variadic:
  "\<not> (length arguments = 1 \<and> isArray (hd arguments)) \<Longrightarrow>
   RpcArguments_serialize arguments =
     (if arguments = [] then Inr Null
      else case all_or_first_error (map RpcTypes_serialize arguments) of Inl e \<Rightarrow> Inl e | Inr rs \<Rightarrow> Inr (Arr rs))"
  by (auto simp: RpcArguments_serialize.simps effective_args_def)

lemma read_falsy: "falsy w \<Longrightarrow> RpcArguments_read ToString w = Inr []"
  by (simp add: RpcArguments_read.simps)

lemma read_Arr: "RpcArguments_read ToString (Arr ws) = all_or_first_error (map (read_rawArg ToString) ws)"
  by (simp add: RpcArguments_read.simps)

lemma read_rawArg_Arr:
  "read_rawArg ToString (Arr items) = RpcTypes_read ToString (idx items 0) (tl items)"
  by (simp add: read_rawArg.simps)

lemma read_rawArg_other: "\<not> isArray w \<Longrightarrow> read_rawArg ToString w = Inr w"
  by (cases w) (simp_all add: read_rawArg.simps)

lemma reduce_keys_zip:
  "length vs = length ks \<Longrightarrow> distinct (map fst acc @ ks) \<Longrightarrow>
   ''__proto__'' \<notin> set ks \<Longrightarrow>
   reduce_keys ToString (pre @ vs) acc (length pre) (map Str ks) = acc @ zip ks vs"
proof (induction ks arbitrary: vs acc pre)
  case Nil
  then show ?case by simp
next
  case (Cons k ks)
  then obtain v vs' where vs: "vs = v # vs'" by (cases vs) auto
  have set: "obj_set acc k v = acc @ [(k, v)]" if "k \<notin> fst ` set acc" "k \<noteq> ''__proto__''" for acc
    using that by (induction acc) auto
  have "reduce_keys ToString ((pre @ [v]) @ vs') (acc @ [(k, v)]) (length (pre @ [v])) (map Str ks)
      = (acc @ [(k, v)]) @ zip ks vs'"
    using Cons.prems vs by (intro Cons.IH) auto
  moreover have "idx (pre @ v # vs') (length pre) = v"
    by (simp add: idx_def)
  moreover have "obj_set acc k v = acc @ [(k, v)]"
    using Cons.prems by (intro set) auto
  ultimately show ?case
    using vs by (simp add: property_key_def)
qed

lemma obj_get_own:
  "distinct (map fst props) \<Longrightarrow> map (obj_get (Obj props)) (map fst props) = map snd props"
  by (induction props) (auto simp: rev_image_eqI)

lemma roundtrip_list:
  assumes "\<And>x. x \<in> set xs \<Longrightarrow> \<exists>w. RpcTypes_serialize x = Inr w \<and> read_rawArg ToString w = Inr x"
  shows "\<exists>w. RpcArguments_serialize [Arr xs] = Inr w \<and> RpcArguments_read ToString w = Inr xs"
proof -
  from assms have "\<exists>ws. all_or_first_error (map RpcTypes_serialize xs) = Inr ws \<and>
      all_or_first_error (map (read_rawArg ToString) ws) = Inr xs \<and> length ws = length xs"
  proof (induction xs)
    case Nil
    show ?case by simp
  next
    case (Cons x xs)
    then obtain w ws where "RpcTypes_serialize x = Inr w" "read_rawArg ToString w = Inr x"
      "all_or_first_error (map RpcTypes_serialize xs) = Inr ws"
      "all_or_first_error (map (read_rawArg ToString) ws) = Inr xs" "length ws = length xs"
      by (metis list.set_intros(1) list.set_intros(2))
    then show ?case by simp
  qed
  then obtain ws where ws: "all_or_first_error (map RpcTypes_serialize xs) = Inr ws"
      "all_or_first_error (map (read_rawArg ToString) ws) = Inr xs" "length ws = length xs"
    by blast
  show ?thesis
  proof (cases "xs = []")
    case True
    then show ?thesis by (simp add: serialize_explicit read_falsy)
  next
    case False
    then show ?thesis using ws by (simp add: serialize_explicit read_Arr)
  qed
qed

lemma roundtrip_value:
  "representable v \<Longrightarrow> \<exists>w. RpcTypes_serialize v = Inr w \<and> read_rawArg ToString w = Inr v"
proof (induction v)
  case (Arr xs)
  then have "\<exists>w. RpcArguments_serialize [Arr xs] = Inr w \<and> RpcArguments_read ToString w = Inr xs"
    by (intro roundtrip_list) auto
  then show ?case
    by (auto simp: serialize_Arr read_rawArg_Arr idx_def RpcTypes_read.simps)
next
  case (Obj props)
  have "\<exists>w. RpcArguments_serialize [Arr (map Str (map fst props))] = Inr w \<and>
      RpcArguments_read ToString w = Inr (map Str (map fst props))"
    by (intro roundtrip_list) (auto simp: serialize_untyped nameFor_def read_rawArg_other)
  then obtain kw where kw: "RpcArguments_serialize [Arr (map Str (map fst props))] = Inr kw"
      "RpcArguments_read ToString kw = Inr (map Str (map fst props))"
    by blast
  have own: "map (obj_get (Obj props)) (map fst props) = map snd props"
    using Obj.prems by (intro obj_get_own) simp
  have "\<exists>w. RpcArguments_serialize [Arr (map snd props)] = Inr w \<and>
      RpcArguments_read ToString w = Inr (map snd props)"
  proof (intro roundtrip_list)
    fix x assume "x \<in> set (map snd props)"
    then obtain p where p: "p \<in> set props" "x = snd p" by auto
    then have "x \<in> Basic_BNFs.snds p" "representable x"
      using Obj.prems by (auto intro: snds.intros)
    with p show "\<exists>w. RpcTypes_serialize x = Inr w \<and> read_rawArg ToString w = Inr x"
      by (intro Obj.IH)
  qed
  then obtain vw where vw: "RpcArguments_serialize [Arr (map snd props)] = Inr vw"
      "RpcArguments_read ToString vw = Inr (map snd props)"
    by blast
  have rebuilt: "reduce_keys ToString (map snd props) [] 0 (map Str (map fst props)) = props"
    using reduce_keys_zip [of "map snd props" "map fst props" "[]" ToString "[]"] Obj.prems
    by (simp add: zip_map_fst_snd)
  have "RpcTypes_serialize (Obj props) = Inr (Arr [Str ''o'', kw, vw])"
    unfolding serialize_Obj own by (simp only: kw vw sum.case)
  moreover have "read_rawArg ToString (Arr [Str ''o'', kw, vw]) = Inr (Obj props)"
    unfolding read_rawArg_Arr by (simp add: idx_def RpcTypes_read.simps kw vw rebuilt del: map_map)
  ultimately show ?case by simp
next
  case (Vec3 x y z)
  then obtain a b c where "x = Num a" "y = Num b" "z = Num c"
    by (cases x; cases y; cases z) auto
  then show ?case
    by (simp add: serialize_Vec3 serialize_variadic serialize_untyped nameFor_def read_rawArg_Arr
        idx_def RpcTypes_read.simps read_Arr read_rawArg_other Vector3_new_def)
qed (simp_all add: serialize_untyped nameFor_def read_rawArg_other)


lemma all_or_first_error_Inr:
  "(\<And>r. r \<in> set rs \<Longrightarrow> \<exists>v. r = Inr v) \<Longrightarrow> \<exists>vs. all_or_first_error rs = Inr vs"
proof (induction rs)
  case Nil
  show ?case by simp
next
  case (Cons r rs)
  then obtain v vs where "r = Inr v" "all_or_first_error rs = Inr vs"
    by (metis list.set_intros(1) list.set_intros(2))
  then show ?case by simp
qed

lemma serialize_never_raises:
  "\<exists>w. RpcTypes_serialize obj = Inr w"
  "\<exists>w. RpcArguments_serialize arguments = Inr w"
proof (induction obj and arguments rule: RpcTypes_serialize_RpcArguments_serialize.induct)
  case (1 obj)
  show ?case
  proof (cases "nameFor obj")
    case None
    then show ?thesis by (simp add: serialize_untyped)
  next
    case (Some typeName)
    then have "typeName = ''a'' \<or> typeName = ''o'' \<or> typeName = ''v3''"
      by (cases obj) (auto simp: nameFor_def split: if_splits)
    then show ?thesis
      using Some "1.IH" [OF Some]
      by (subst RpcTypes_serialize.simps) (fastforce split: sum.splits)
  qed
next
  case (2 arguments)
  show ?case
  proof (cases "effective_args arguments = []")
    case True
    then show ?thesis by (simp add: RpcArguments_serialize.simps)
  next
    case False
    have "\<exists>vs. all_or_first_error (map RpcTypes_serialize (effective_args arguments)) = Inr vs"
      using "2.IH" [OF False] by (intro all_or_first_error_Inr) auto
    then show ?thesis using False by (auto simp: RpcArguments_serialize.simps)
  qed
qed

text \<open>
  Claim C1, amended. Every argument list of representable values (primitives, null and
  undefined, Vector3 values of three numbers, sequences, and keyed maps without an own key
  \<^verbatim>\<open>__proto__\<close>, nested to any depth) is serialized without an error, and reading the
  wire form back gives the argument list again.
\<close>

theorem codec_roundtrip:
  "list_all representable args \<Longrightarrow>
   \<exists>wire. RpcArguments_serialize [Arr args] = Inr wire \<and>
          RpcArguments_read ToString wire = Inr args"
  by (intro roundtrip_list roundtrip_value) (simp add: list_all_iff)

theorem codec_roundtrip_witness:
  "\<exists>wire.
     RpcArguments_serialize
       [Arr [Num (Fin 7), Str ''Ada'', Null, Undefined, Bool False, Arr [],
             Arr [Obj [(''at'', Vec3 (Num (Fin 1)) (Num (Fin 2)) (Num NaN)), (''tags'', Arr [Str []])],
                  Obj []]]] = Inr wire \<and>
     RpcArguments_read (\<lambda>v. []) wire =
       Inr [Num (Fin 7), Str ''Ada'', Null, Undefined, Bool False, Arr [],
            Arr [Obj [(''at'', Vec3 (Num (Fin 1)) (Num (Fin 2)) (Num NaN)), (''tags'', Arr [Str []])],
                 Obj []]]"
  using codec_roundtrip
    [of "[Num (Fin 7), Str ''Ada'', Null, Undefined, Bool False, Arr [],
          Arr [Obj [(''at'', Vec3 (Num (Fin 1)) (Num (Fin 2)) (Num NaN)), (''tags'', Arr [Str []])],
               Obj []]]" "\<lambda>v. []"]
  by simp

text \<open>
  The claim as written fails on a keyed map that has an own key \<^verbatim>\<open>__proto__\<close> (as
  \<^verbatim>\<open>JSON.parse\<close> creates one): the key is serialized, but \<^verbatim>\<open>RpcTypes.read\<close> rebuilds the map
  by assignment, which creates no property for this key, and the map comes back empty.
\<close>

theorem proto_key_lost_counterexample:
  "RpcArguments_serialize [Arr [Obj [(''__proto__'', Num (Fin 1))]]]
     = Inr (Arr [Arr [Str ''o'', Arr [Str ''__proto__''], Arr [Num (Fin 1)]]])
   \<and> RpcArguments_read (\<lambda>v. []) (Arr [Arr [Str ''o'', Arr [Str ''__proto__''], Arr [Num (Fin 1)]]])
     = Inr [Obj []]"
  by (simp add: serialize_explicit serialize_Obj serialize_untyped nameFor_def read_Arr
      read_rawArg_Arr read_rawArg_other RpcTypes_read.simps idx_def property_key_def)

lemma serialize_keys:
  "all_or_first_error (map RpcTypes_serialize (map Str keys)) = Inr (map Str keys)"
  by (induction keys) (simp_all add: serialize_untyped nameFor_def)

text \<open>
  Claim C4, amended. No encode failure is raised for a function, or for an instance of
  a class other than \<^verbatim>\<open>Vector3\<close> whose own enumerable properties are data properties
  holding a finite tree of values (a \<^verbatim>\<open>CollisionList\<close>, a \<^verbatim>\<open>Ray\<close>):
  \<^item> a function has no type name and is returned unchanged, so it goes onto the wire
    as it is;
  \<^item> the instance is encoded as \<^verbatim>\<open>['o', keys, values]\<close>: its own enumerable keys in
    \<^verbatim>\<open>Object.keys\<close> order and the serialized values of these properties in the same
    order, each of the two lists replaced by \<^verbatim>\<open>null\<close> when the instance has no such
    property;
  \<^item> every value made of primitives, functions, sequences, Vector3 values, keyed maps
    and such instances is serialized without an exception.
\<close>

theorem serialize_function_and_instance:
  "RpcTypes_serialize (Fn f) = Inr (Fn f) \<and>
   (\<exists>vs. all_or_first_error
            (map RpcTypes_serialize (map (obj_get (Inst c props)) (Object_keys (Inst c props))))
            = Inr vs \<and>
         RpcTypes_serialize (Inst c props) =
           Inr (Arr [Str ''o'',
                     if Object_keys (Inst c props) = [] then Null
                     else Arr (map Str (Object_keys (Inst c props))),
                     if Object_keys (Inst c props) = [] then Null else Arr vs])) \<and>
   (\<exists>w. RpcTypes_serialize obj = Inr w)"
proof (intro conjI)
  show "RpcTypes_serialize (Fn f) = Inr (Fn f)"
    by (simp add: serialize_untyped nameFor_def)
next
  let ?read = "map (obj_get (Inst c props)) (map fst props)"
  obtain vs where vs: "all_or_first_error (map RpcTypes_serialize ?read) = Inr vs"
    using all_or_first_error_Inr [of "map RpcTypes_serialize ?read"] serialize_never_raises(1)
    by auto
  have "RpcTypes_serialize (Inst c props) =
          Inr (Arr [Str ''o'',
                    if map fst props = [] then Null else Arr (map Str (map fst props)),
                    if map fst props = [] then Null else Arr vs])"
    unfolding serialize_Inst serialize_explicit serialize_keys
    using vs by (simp del: map_map)
  with vs show "\<exists>vs. all_or_first_error
            (map RpcTypes_serialize (map (obj_get (Inst c props)) (Object_keys (Inst c props))))
            = Inr vs \<and>
         RpcTypes_serialize (Inst c props) =
           Inr (Arr [Str ''o'',
                     if Object_keys (Inst c props) = [] then Null
                     else Arr (map Str (Object_keys (Inst c props))),
                     if Object_keys (Inst c props) = [] then Null else Arr vs])"
    by (intro exI [of _ vs]) (simp del: map_map)
next
  show "\<exists>w. RpcTypes_serialize obj = Inr w"
    by (rule serialize_never_raises(1))
qed

text \<open>
  The claim as written fails on both kinds of value it names: a function goes through
  untouched, and a class instance (here a \<^verbatim>\<open>CollisionList\<close> of \<^verbatim>\<open>dom.js\<close>) comes out as
  a tagged keyed map.
\<close>

theorem serialize_passes_function_counterexample:
  "RpcTypes_serialize (Fn ''callback'') = Inr (Fn ''callback'') \<and>
   RpcTypes_serialize (Inst ''CollisionList'' [(''length'', Num (Fin 0))]) =
     Inr (Arr [Str ''o'', Arr [Str ''length''], Arr [Num (Fin 0)]])"
  by (simp add: serialize_untyped nameFor_def serialize_Inst serialize_explicit)

text \<open>
  Claim C5, amended. Called with no arguments, \<^verbatim>\<open>RpcArguments.serialize\<close> gives the
  absence sentinel \<^verbatim>\<open>null\<close>, and reading the sentinel gives the empty sequence. Called
  with one explicit empty sequence it gives the same sentinel, so the two wire forms
  are equal. An empty sequence carries a tag only as an element of an argument list,
  where it is encoded as \<^verbatim>\<open>['a', null]\<close> and read back as an empty sequence.
\<close>

theorem absence_and_empty_share_wire_form:
  "RpcArguments_serialize [] = Inr Null \<and>
   RpcArguments_read ToString Null = Inr [] \<and>
   RpcArguments_serialize [Arr []] = Inr Null \<and>
   RpcTypes_serialize (Arr []) = Inr (Arr [Str ''a'', Null]) \<and>
   read_rawArg ToString (Arr [Str ''a'', Null]) = Inr (Arr [])"
  by (simp add: serialize_explicit serialize_variadic read_falsy serialize_Arr read_rawArg_Arr
      RpcTypes_read.simps idx_def)

text \<open>The two call shapes are not distinguishable on the wire.\<close>

theorem absence_equals_empty_counterexample:
  "RpcArguments_serialize [] = RpcArguments_serialize [Arr []]"
  by (simp add: serialize_explicit serialize_variadic)

section \<open>Properties of the dispatch\<close>






section \<open>Properties of the generated call text\<close>




section \<open>Properties of the participant state\<close>

lemma strict_equals_eq: "strict_equals a b \<Longrightarrow> a = b"
  by (cases a; cases b) auto

lemma position_unchanged_eq: "position_unchanged s t \<Longrightarrow> s = t"
  by (simp add: position_unchanged_def strict_equals_eq)

lemma state_updateState: "state (updateState n c u) = lodash_merge (state c) u"
  using position_unchanged_eq [of "state c" "lodash_merge (state c) u"]
  by (auto simp: updateState_def Let_def)

text \<open>
  Claim C8, amended. After \<^verbatim>\<open>updateState\<close> every component of the participant's position
  is the supplied one where one is supplied and the previous one elsewhere. When the
  merged position is strictly equal (\<^verbatim>\<open>===\<close>) to the current one in every component, the
  call changes nothing: the participant keeps its state object. Otherwise the new object
  takes the place of the state object. After a complete update of numbers other than
  \<^verbatim>\<open>NaN\<close>, the same update applied again changes nothing.
\<close>

theorem redundant_update_suppressed:
  "state (updateState n c u) =
     \<lparr>pos_x = (case new_x u of None \<Rightarrow> pos_x (state c) | Some v \<Rightarrow> v),
      pos_y = (case new_y u of None \<Rightarrow> pos_y (state c) | Some v \<Rightarrow> v),
      pos_z = (case new_z u of None \<Rightarrow> pos_z (state c) | Some v \<Rightarrow> v)\<rparr> \<and>
   uuid (updateState n c u) = uuid c \<and>
   (position_unchanged (state c) (lodash_merge (state c) u) \<longrightarrow> updateState n c u = c) \<and>
   (\<not> position_unchanged (state c) (lodash_merge (state c) u) \<longrightarrow>
      state_id (updateState n c u) = n) \<and>
   (new_x u = Some (Fin a) \<and> new_y u = Some (Fin b) \<and> new_z u = Some (Fin d) \<longrightarrow>
      updateState m (updateState n c u) u = updateState n c u)"
proof (intro conjI impI)
  show "state (updateState n c u) =
     \<lparr>pos_x = (case new_x u of None \<Rightarrow> pos_x (state c) | Some v \<Rightarrow> v),
      pos_y = (case new_y u of None \<Rightarrow> pos_y (state c) | Some v \<Rightarrow> v),
      pos_z = (case new_z u of None \<Rightarrow> pos_z (state c) | Some v \<Rightarrow> v)\<rparr>"
    by (simp add: state_updateState lodash_merge_def)
next
  show "uuid (updateState n c u) = uuid c"
    by (simp add: updateState_def Let_def)
next
  assume "position_unchanged (state c) (lodash_merge (state c) u)"
  then show "updateState n c u = c"
    by (simp add: updateState_def)
next
  assume "\<not> position_unchanged (state c) (lodash_merge (state c) u)"
  then show "state_id (updateState n c u) = n"
    by (simp add: updateState_def)
next
  assume full: "new_x u = Some (Fin a) \<and> new_y u = Some (Fin b) \<and> new_z u = Some (Fin d)"
  then have "position_unchanged (state (updateState n c u))
               (lodash_merge (state (updateState n c u)) u)"
    by (simp add: state_updateState lodash_merge_def position_unchanged_def)
  then show "updateState m (updateState n c u) u = updateState n c u"
    by (simp add: updateState_def [of m])
qed

theorem redundant_update_suppressed_witness:
  "updateState 1 (MinimalClient_new 0 ''u1'')
       \<lparr>new_x = Some (Fin 0), new_y = None, new_z = None\<rparr> = MinimalClient_new 0 ''u1'' \<and>
   state_id (updateState 1 (MinimalClient_new 0 ''u1'')
       \<lparr>new_x = Some (Fin 1), new_y = None, new_z = None\<rparr>) = 1 \<and>
   updateState 2
       (updateState 1 (MinimalClient_new 0 ''u1'')
          \<lparr>new_x = Some (Fin 1), new_y = Some (Fin 2), new_z = Some (Fin 3)\<rparr>)
       \<lparr>new_x = Some (Fin 1), new_y = Some (Fin 2), new_z = Some (Fin 3)\<rparr>
     = updateState 1 (MinimalClient_new 0 ''u1'')
          \<lparr>new_x = Some (Fin 1), new_y = Some (Fin 2), new_z = Some (Fin 3)\<rparr>"
  using redundant_update_suppressed
      [where n = 1 and c = "MinimalClient_new 0 ''u1''"
         and u = "\<lparr>new_x = Some (Fin 0), new_y = None, new_z = None\<rparr>"]
    redundant_update_suppressed
      [where n = 1 and c = "MinimalClient_new 0 ''u1''"
         and u = "\<lparr>new_x = Some (Fin 1), new_y = None, new_z = None\<rparr>"]
    redundant_update_suppressed
      [where n = 1 and m = 2 and c = "MinimalClient_new 0 ''u1''"
         and u = "\<lparr>new_x = Some (Fin 1), new_y = Some (Fin 2), new_z = Some (Fin 3)\<rparr>"
         and a = 1 and b = 2 and d = 3]
  by (simp add: MinimalClient_new_def lodash_merge_def position_unchanged_def)

text \<open>
  The claim as written fails on a position with a \<^verbatim>\<open>NaN\<close> component, which is not \<^verbatim>\<open>===\<close>
  to itself: the second of two equal complete updates puts a new state object, with the
  same values, in the place of the one the first update put there.
\<close>

theorem repeated_nan_update_counterexample:
  "state_id (updateState 1 (MinimalClient_new 0 ''u1'')
       \<lparr>new_x = Some NaN, new_y = Some (Fin 2), new_z = Some (Fin 3)\<rparr>) = 1 \<and>
   state_id (updateState 2
       (updateState 1 (MinimalClient_new 0 ''u1'')
          \<lparr>new_x = Some NaN, new_y = Some (Fin 2), new_z = Some (Fin 3)\<rparr>)
       \<lparr>new_x = Some NaN, new_y = Some (Fin 2), new_z = Some (Fin 3)\<rparr>) = 2 \<and>
   state (updateState 2
       (updateState 1 (MinimalClient_new 0 ''u1'')
          \<lparr>new_x = Some NaN, new_y = Some (Fin 2), new_z = Some (Fin 3)\<rparr>)
       \<lparr>new_x = Some NaN, new_y = Some (Fin 2), new_z = Some (Fin 3)\<rparr>)
     = state (updateState 1 (MinimalClient_new 0 ''u1'')
          \<lparr>new_x = Some NaN, new_y = Some (Fin 2), new_z = Some (Fin 3)\<rparr>)"
  by (simp add: updateState_def MinimalClient_new_def lodash_merge_def position_unchanged_def)

section \<open>Properties of the virtual document\<close>



















text \<open>
  Claim C7. \<^verbatim>\<open>appendChild\<close> raises when the child's node has a parent and then leaves the
  state, the tree included, as it was; it succeeds only for a child whose node has no
  parent, and then the tree is what cheerio's \<^verbatim>\<open>append\<close> makes of it; and whenever it
  does not succeed the state is unchanged.
\<close>

theorem appendChild_single_parent:
  "(ElementToCheerio d child = Some c \<and> node_parent (doc_tree d) c = Some q \<longrightarrow>
      VMElement_appendChild appendTo d this child = (Inl (AlreadyHasParent child), d))
   \<and> (VMElement_appendChild appendTo d this child = (Inr (), d') \<longrightarrow>
      (\<exists>c n. ElementToCheerio d child = Some c \<and> node_parent (doc_tree d) c = None \<and>
             ElementToCheerio d this = Some n \<and> d' = d\<lparr>doc_tree := appendTo (doc_tree d) n c\<rparr>))
   \<and> (fst (VMElement_appendChild appendTo d this child) = Inr () \<or>
      snd (VMElement_appendChild appendTo d this child) = d)"
  by (auto simp: VMElement_appendChild_def split: option.splits)



theorem appendChild_single_parent_witness:
  "VMElement_appendChild cheerio_append all_wrapped 0 1 = (Inl (AlreadyHasParent 1), all_wrapped)
   \<and> (\<exists>c n. ElementToCheerio all_wrapped 2 = Some c \<and> node_parent (doc_tree all_wrapped) c = None \<and>
          ElementToCheerio all_wrapped 0 = Some n \<and>
          all_wrapped\<lparr>doc_tree := cheerio_append sample_tree 2 4\<rparr>
            = all_wrapped\<lparr>doc_tree := cheerio_append (doc_tree all_wrapped) n c\<rparr>)"
proof -
  have taken: "ElementToCheerio all_wrapped 1 = Some 3" "node_parent (doc_tree all_wrapped) 3 = Some 1"
    by (simp_all add: all_wrapped_def sample_tree_def)
  have detached: "VMElement_appendChild cheerio_append all_wrapped 0 2
      = (Inr (), all_wrapped\<lparr>doc_tree := cheerio_append sample_tree 2 4\<rparr>)"
    by (simp add: VMElement_appendChild_def all_wrapped_def sample_tree_def)
  have 1: "VMElement_appendChild cheerio_append all_wrapped 0 1 = (Inl (AlreadyHasParent 1), all_wrapped)"
    using appendChild_single_parent [where d = all_wrapped and child = 1 and c = 3 and q = 1
        and appendTo = cheerio_append and this = 0] taken by simp
  have 2: "\<exists>c n. ElementToCheerio all_wrapped 2 = Some c \<and> node_parent (doc_tree all_wrapped) c = None \<and>
          ElementToCheerio all_wrapped 0 = Some n \<and>
          all_wrapped\<lparr>doc_tree := cheerio_append sample_tree 2 4\<rparr>
            = all_wrapped\<lparr>doc_tree := cheerio_append (doc_tree all_wrapped) n c\<rparr>"
    using appendChild_single_parent [where d = all_wrapped and child = 2
        and appendTo = cheerio_append and this = 0
        and d' = "all_wrapped\<lparr>doc_tree := cheerio_append sample_tree 2 4\<rparr>"] detached
    by simp
  from 1 2 show ?thesis by simp
qed

end
